theory Spec2Isabelle
  imports Complex_Main "HOL-Library.Word" "HOL-Library.Monad_Syntax"
begin

section \<open>Machine arithmetic of the target\<close>

text \<open>
  The sketch is built for the ESP32 (it uses \<^verbatim>\<open>BluetoothSerial\<close>): \<^verbatim>\<open>int\<close> and
  \<^verbatim>\<open>long\<close> have 32 bits, \<^verbatim>\<open>unsigned long\<close> is a 32-bit word whose arithmetic wraps,
  \<^verbatim>\<open>float\<close> is IEEE binary32 and \<^verbatim>\<open>double\<close> is IEEE binary64.

  Values of type \<^verbatim>\<open>unsigned long\<close> are \<open>32 word\<close>. Values of type \<^verbatim>\<open>int\<close> are
  integers, and every operation on them that can leave the 32-bit range has its two's
  complement wrap-around written out with \<open>int32\<close>.
\<close>

definition int32 :: "int \<Rightarrow> int" where
  "int32 x = (x + 2147483648) mod 4294967296 - 2147483648"

text \<open>The operators \<^verbatim>\<open>/\<close> and \<^verbatim>\<open>%\<close> of C++ on integers: the quotient is cut towards zero.\<close>

definition c_div :: "int \<Rightarrow> int \<Rightarrow> int" where
  "c_div a b = (if (a < 0) = (b < 0) then \<bar>a\<bar> div \<bar>b\<bar> else - (\<bar>a\<bar> div \<bar>b\<bar>))"

definition c_mod :: "int \<Rightarrow> int \<Rightarrow> int" where
  "c_mod a b = a - c_div a b * b"

text \<open>\<^verbatim>\<open>abs\<close> on an \<^verbatim>\<open>int\<close>: negating the least value wraps.\<close>

definition c_abs :: "int \<Rightarrow> int" where
  "c_abs x = (if 0 < x then x else int32 (- x))"

subsection \<open>Binary floating point\<close>

text \<open>
  A finite floating-point value is represented by the real number it denotes. Every
  floating-point operation is the exact operation on reals followed by rounding to the
  nearest representable value, ties to the even significand. \<open>ieee_round p emin\<close> rounds
  to \<open>p\<close> significand bits with least normal exponent \<open>emin\<close> (below it the spacing stays
  that of the subnormal numbers). No quantity of this program comes near the
  overflow threshold of either format (the largest is a sum of at most 128 squares of
  32-bit values), so infinities and NaN do not arise and are not represented.
\<close>

definition round_even :: "real \<Rightarrow> int" where
  "round_even y =
     (let f = \<lfloor>y\<rfloor>; r = y - of_int f
      in if r < 1 / 2 then f else if 1 / 2 < r then f + 1
         else if even f then f else f + 1)"

definition ieee_round :: "int \<Rightarrow> int \<Rightarrow> real \<Rightarrow> real" where
  "ieee_round p emin x =
     (if x = 0 then 0
      else let e = max \<lfloor>log 2 \<bar>x\<bar>\<rfloor> emin; q = 2 powi (e - p + 1)
           in of_int (round_even (x / q)) * q)"

definition to_float :: "real \<Rightarrow> real" where
  "to_float = ieee_round 24 (- 126)"

definition to_double :: "real \<Rightarrow> real" where
  "to_double = ieee_round 53 (- 1022)"

text \<open>
  Conversion of a floating-point value to \<^verbatim>\<open>int\<close> cuts the fraction; when the cut
  value is not an \<^verbatim>\<open>int\<close> the behaviour is undefined, which is the result \<open>None\<close>.
\<close>

definition c_trunc :: "real \<Rightarrow> int" where
  "c_trunc x = (if 0 \<le> x then \<lfloor>x\<rfloor> else \<lceil>x\<rceil>)"

definition float_to_int :: "real \<Rightarrow> int option" where
  "float_to_int x =
     (let k = c_trunc x
      in if - 2147483648 \<le> k \<and> k \<le> 2147483647 then Some k else None)"

section \<open>Constants and global state of the sketch\<close>

definition UpperThreshold :: int where
  "UpperThreshold = 560"

definition ECG_SAMPLE_SIZE :: int where
  "ECG_SAMPLE_SIZE = 128"

definition ECG_AMPLITUDE :: int where
  "ECG_AMPLITUDE = 20"

definition motor1 :: nat where
  "motor1 = 12"

definition motor2 :: nat where
  "motor2 = 14"

text \<open>\<^verbatim>\<open>interval\<close>, \<^verbatim>\<open>decayRate\<close> and \<^verbatim>\<open>transmissionInterval\<close> are never assigned after
  their initialisation.\<close>

definition interval :: int where
  "interval = 10000"

text \<open>The literal \<^verbatim>\<open>0.9\<close> is a \<^verbatim>\<open>double\<close>, stored in a \<^verbatim>\<open>float\<close>.\<close>

definition decayRate :: real where
  "decayRate = to_float (to_double (9 / 10))"

definition transmissionInterval :: "32 word" where
  "transmissionInterval = 5000"

text \<open>
  The global variables, and the levels of the output pins written by
  \<^verbatim>\<open>digitalWrite\<close>. The display and the Bluetooth link only read the globals and are
  not part of the state.
\<close>

record state =
  lastBeatTime :: "32 word"
  intervalStartTime :: "32 word"
  bpm :: int
  ecgWaveform :: "int list"
  ecgIndex :: int
  pulseCount :: int
  sdnn :: real
  rmssd :: real
  stressLevel :: string
  nnIntervals :: "32 word list"
  nnIndex :: int
  lastTransmissionTime :: "32 word"
  pins :: "nat \<Rightarrow> bool"

definition initial_state :: state where
  "initial_state =
     \<lparr>lastBeatTime = 0, intervalStartTime = 0, bpm = 0,
      ecgWaveform = replicate 128 0, ecgIndex = 0, pulseCount = 0,
      sdnn = 0, rmssd = 0, stressLevel = '''',
      nnIntervals = replicate 128 0, nnIndex = 0,
      lastTransmissionTime = 0, pins = (\<lambda>_. False)\<rparr>"

text \<open>The values of a 32-bit \<^verbatim>\<open>int\<close>.\<close>

definition is_int32 :: "int \<Rightarrow> bool" where
  "is_int32 x = (- 2147483648 \<le> x \<and> x \<le> 2147483647)"

section \<open>The actuators\<close>

definition digitalWrite :: "nat \<Rightarrow> bool \<Rightarrow> state \<Rightarrow> state" where
  "digitalWrite pin level st = st\<lparr>pins := (pins st)(pin := level)\<rparr>"

definition controlVibeMotors :: "string \<Rightarrow> state \<Rightarrow> state" where
  "controlVibeMotors level st =
     (if level = ''Very High'' then digitalWrite motor2 True (digitalWrite motor1 True st)
      else if level = ''High'' then digitalWrite motor2 False (digitalWrite motor1 True st)
      else digitalWrite motor2 False (digitalWrite motor1 False st))"

section \<open>The stages of one pass of \<^verbatim>\<open>loop\<close>\<close>

text \<open>
  \<^verbatim>\<open>map\<close> of the Arduino core, computed in \<^verbatim>\<open>long\<close>:
  \<^verbatim>\<open>(x - in_min) * (out_max - out_min) / (in_max - in_min) + out_min\<close>.
\<close>

definition arduino_map :: "int \<Rightarrow> int \<Rightarrow> int \<Rightarrow> int \<Rightarrow> int \<Rightarrow> int" where
  "arduino_map x in_min in_max out_min out_max =
     int32 (c_div (int32 (int32 (x - in_min) * int32 (out_max - out_min)))
                  (int32 (in_max - in_min)) + out_min)"

text \<open>
  Lines 72 and 73: the rescaled sample is stored at \<^verbatim>\<open>ecgIndex\<close>, which then advances.
  A store outside the array is undefined behaviour (\<open>None\<close>).
\<close>

definition storeSample :: "int \<Rightarrow> state \<Rightarrow> state option" where
  "storeSample pulseValue st =
     (if 0 \<le> ecgIndex st \<and> ecgIndex st < ECG_SAMPLE_SIZE then
        Some (st\<lparr>ecgWaveform := (ecgWaveform st)
                     [nat (ecgIndex st) := arduino_map pulseValue 0 1023 0 ECG_AMPLITUDE],
                 ecgIndex := c_mod (ecgIndex st + 1) ECG_SAMPLE_SIZE\<rparr>)
      else None)"

text \<open>Lines 76 to 83: the pulse detector.\<close>

definition beat_accepted :: "32 word \<Rightarrow> int \<Rightarrow> state \<Rightarrow> bool" where
  "beat_accepted currentMillis pulseValue st =
     (UpperThreshold < pulseValue \<and> 600 < currentMillis - lastBeatTime st)"

definition detectPulse :: "32 word \<Rightarrow> int \<Rightarrow> state \<Rightarrow> state option" where
  "detectPulse currentMillis pulseValue st =
     (if beat_accepted currentMillis pulseValue st then
        (let nnInterval = currentMillis - lastBeatTime st
         in if 0 \<le> nnIndex st \<and> nnIndex st < ECG_SAMPLE_SIZE then
              Some (st\<lparr>lastBeatTime := currentMillis,
                       nnIntervals := (nnIntervals st)[nat (nnIndex st) := nnInterval],
                       nnIndex := c_mod (nnIndex st + 1) ECG_SAMPLE_SIZE,
                       pulseCount := int32 (pulseCount st + 1)\<rparr>)
            else None)
      else Some st)"

text \<open>
  Lines 88 to 93. \<^verbatim>\<open>bpm *= decayRate\<close> converts \<^verbatim>\<open>bpm\<close> to \<^verbatim>\<open>float\<close>, multiplies in
  \<^verbatim>\<open>float\<close> and converts the product back to \<^verbatim>\<open>int\<close>.
\<close>

definition estimateBPM :: "state \<Rightarrow> int option" where
  "estimateBPM st =
     (if 0 < pulseCount st then
        Some (c_div (int32 (pulseCount st * 60)) (c_div interval 1000))
      else
        map_option (\<lambda>b. if b < 1 then 0 else b)
          (float_to_int (to_float (to_float (of_int (bpm st)) * decayRate))))"

text \<open>
  Lines 143 to 175. The operands of \<^verbatim>\<open>+=\<close>, \<^verbatim>\<open>/\<close> and \<^verbatim>\<open>-\<close> are converted to
  \<^verbatim>\<open>float\<close> when one of them is a \<^verbatim>\<open>float\<close>; \<^verbatim>\<open>pow\<close> computes in \<^verbatim>\<open>double\<close>, so the
  sums of squares are added in \<^verbatim>\<open>double\<close> and rounded to \<^verbatim>\<open>float\<close> when stored;
  \<^verbatim>\<open>sqrt\<close> of a \<^verbatim>\<open>float\<close> is a \<^verbatim>\<open>float\<close>. The difference of two successive
  intervals is a difference of \<^verbatim>\<open>unsigned long\<close> values.
\<close>

definition nn_float :: "32 word list \<Rightarrow> nat \<Rightarrow> real" where
  "nn_float xs i = to_float (real (unat (xs ! i)))"

definition sum_nn :: "32 word list \<Rightarrow> nat \<Rightarrow> real" where
  "sum_nn xs n = fold (\<lambda>i s. to_float (s + nn_float xs i)) [0..<n] 0"

definition sum_square_diff :: "32 word list \<Rightarrow> nat \<Rightarrow> real \<Rightarrow> real" where
  "sum_square_diff xs n meanNN =
     fold (\<lambda>i s. to_float (to_double (s + to_double ((to_float (nn_float xs i - meanNN))\<^sup>2))))
       [0..<n] 0"

definition sum_square_diff_successive :: "32 word list \<Rightarrow> nat \<Rightarrow> real" where
  "sum_square_diff_successive xs n =
     fold (\<lambda>i s. to_float (to_double (s + to_double ((real (unat (xs ! i - xs ! (i - 1))))\<^sup>2))))
       [1..<n] 0"

definition computeHRV :: "state \<Rightarrow> state option" where
  "computeHRV st =
     (if nnIndex st < 2 then Some (st\<lparr>sdnn := 0, rmssd := 0\<rparr>)
      else if ECG_SAMPLE_SIZE < nnIndex st then None
      else
        let n = nat (nnIndex st);
            xs = nnIntervals st;
            meanNN = to_float (sum_nn xs n / to_float (of_int (nnIndex st)));
            sdnn' = to_float (sqrt (to_float (sum_square_diff xs n meanNN
                                                / to_float (of_int (nnIndex st - 1)))));
            r = to_float (sqrt (to_float (sum_square_diff_successive xs n
                                            / to_float (of_int (nnIndex st - 1)))))
        in case float_to_int r of
             None \<Rightarrow> None
           | Some k \<Rightarrow> Some (st\<lparr>sdnn := sdnn', rmssd := to_float (of_int (c_mod k 1000))\<rparr>))"

text \<open>Lines 100 to 112: the classifier.\<close>

definition classify :: "int \<Rightarrow> real \<Rightarrow> real \<Rightarrow> string" where
  "classify b s r =
     (if 0 < b then
        (if 90 < b \<and> s < 50 \<and> r < 30 then ''Very High''
         else if 80 < b \<and> 50 \<le> s \<and> s \<le> 100 \<and> 30 \<le> r \<and> r \<le> 70 then ''High''
         else if 70 < b \<and> 100 < s \<and> 70 < r then ''Moderate''
         else ''Low'')
      else ''None'')"

text \<open>Lines 115 to 121: the scan for a flat waveform, leaving at the first large step.\<close>

function flat_from :: "int list \<Rightarrow> nat \<Rightarrow> bool" where
  "flat_from w i =
     (if int i < ECG_SAMPLE_SIZE then
        (if 1 < c_abs (int32 (w ! i - w ! (i - 1))) then False else flat_from w (Suc i))
      else True)"
  by pat_completeness auto
termination
  by (relation "measure (\<lambda>(w, i). 128 - i)") (auto simp: ECG_SAMPLE_SIZE_def)

declare flat_from.simps [simp del]

definition minimalVariation :: "int list \<Rightarrow> bool" where
  "minimalVariation w = flat_from w 1"

text \<open>Lines 122 to 125.\<close>

definition flatlineGuard :: "state \<Rightarrow> state" where
  "flatlineGuard st =
     (if minimalVariation (ecgWaveform st) then st\<lparr>bpm := 0, stressLevel := ''None''\<rparr>
      else st)"

text \<open>Lines 86 to 128: the evaluation window.\<close>

definition window_elapsed :: "32 word \<Rightarrow> state \<Rightarrow> bool" where
  "window_elapsed currentMillis st =
     (word_of_int interval \<le> currentMillis - intervalStartTime st)"

definition evaluateWindow :: "32 word \<Rightarrow> state \<Rightarrow> state option" where
  "evaluateWindow currentMillis st =
     (if window_elapsed currentMillis st then
        do {
          b \<leftarrow> estimateBPM st;
          st1 \<leftarrow> computeHRV (st\<lparr>intervalStartTime := currentMillis, bpm := b\<rparr>);
          let st2 = st1\<lparr>stressLevel := classify (bpm st1) (sdnn st1) (rmssd st1)\<rparr>;
          Some ((flatlineGuard st2)\<lparr>pulseCount := 0\<rparr>)
        }
      else Some st)"

text \<open>Lines 137 to 140.\<close>

definition transmit :: "32 word \<Rightarrow> state \<Rightarrow> state" where
  "transmit currentMillis st =
     (if transmissionInterval \<le> currentMillis - lastTransmissionTime st
      then st\<lparr>lastTransmissionTime := currentMillis\<rparr> else st)"

text \<open>
  One pass of \<^verbatim>\<open>loop\<close>, given the values returned by \<^verbatim>\<open>millis\<close> and
  \<^verbatim>\<open>analogRead\<close>.
\<close>

definition loop :: "32 word \<Rightarrow> int \<Rightarrow> state \<Rightarrow> state option" where
  "loop currentMillis pulseValue st =
     do {
       st1 \<leftarrow> storeSample pulseValue st;
       st2 \<leftarrow> detectPulse currentMillis pulseValue st1;
       st3 \<leftarrow> evaluateWindow currentMillis st2;
       Some (transmit currentMillis (controlVibeMotors (stressLevel st3) st3))
     }"

section \<open>Running the sketch\<close>

text \<open>
  The Arduino runtime calls \<^verbatim>\<open>loop\<close> again and again; a run is given by the values
  that \<^verbatim>\<open>millis\<close> and \<^verbatim>\<open>analogRead\<close> return in the successive passes.
\<close>

fun run :: "(32 word \<times> int) list \<Rightarrow> state \<Rightarrow> state option" where
  "run [] st = Some st"
| "run ((t, v) # es) st = Option.bind (loop t v st) (run es)"

text \<open>The pulse detector alone, fed a sequence of samples.\<close>

fun detectPulses :: "(32 word \<times> int) list \<Rightarrow> state \<Rightarrow> state option" where
  "detectPulses [] st = Some st"
| "detectPulses ((t, v) # es) st = Option.bind (detectPulse t v st) (detectPulses es)"


text \<open>The NN intervals of such a sequence: each beat's distance to the one before.\<close>

fun beat_intervals :: "32 word \<Rightarrow> (32 word \<times> int) list \<Rightarrow> 32 word list" where
  "beat_intervals prev [] = []"
| "beat_intervals prev ((t, v) # es) = (t - prev) # beat_intervals t es"

section \<open>The classifier as a rule table\<close>

text \<open>
  The specification describes the classifier as a table of rules over
  (bpm, sdnn, rmssd), tried in order, the first matching rule giving the level, with
  \<open>Low\<close> when none matches and \<open>None\<close> when bpm is not positive.
\<close>

datatype StressLevel = LevelNone | Low | Moderate | High | VeryHigh

fun level_name :: "StressLevel \<Rightarrow> string" where
  "level_name LevelNone = ''None''"
| "level_name Low = ''Low''"
| "level_name Moderate = ''Moderate''"
| "level_name High = ''High''"
| "level_name VeryHigh = ''Very High''"

definition classifier_rules :: "((int \<times> real \<times> real \<Rightarrow> bool) \<times> StressLevel) list" where
  "classifier_rules =
     [(\<lambda>(b, s, r). 90 < b \<and> s < 50 \<and> r < 30, VeryHigh),
      (\<lambda>(b, s, r). 80 < b \<and> 50 \<le> s \<and> s \<le> 100 \<and> 30 \<le> r \<and> r \<le> 70, High),
      (\<lambda>(b, s, r). 70 < b \<and> 100 < s \<and> 70 < r, Moderate)]"

definition first_match :: "((int \<times> real \<times> real \<Rightarrow> bool) \<times> StressLevel) list \<Rightarrow>
    int \<times> real \<times> real \<Rightarrow> StressLevel" where
  "first_match rules x = (case find (\<lambda>(p, l). p x) rules of Some (p, l) \<Rightarrow> l | None \<Rightarrow> Low)"

definition spec_classify :: "int \<Rightarrow> real \<Rightarrow> real \<Rightarrow> StressLevel" where
  "spec_classify b s r = (if 0 < b then first_match classifier_rules (b, s, r) else LevelNone)"



definition spec_rmssd :: "real list \<Rightarrow> real" where
  "spec_rmssd xs =
     of_int (\<lfloor>sqrt ((\<Sum>i\<leftarrow>[1..<length xs]. (xs ! i - xs ! (i - 1))\<^sup>2) / real (length xs - 1))\<rfloor>
             mod 1000)"

section \<open>Example inputs\<close>

text \<open>A waveform that rises by one every eight slots, from 0 in slot 0 to 15 in slot 127.\<close>

definition ramp :: "int list" where
  "ramp = map (\<lambda>i. int (i div 8)) [0..<128]"

text \<open>The initial state after the given intervals have been stored from slot 0 on.\<close>

definition history_state :: "32 word list \<Rightarrow> state" where
  "history_state xs =
     initial_state\<lparr>nnIntervals := xs @ replicate (128 - length xs) 0,
                   nnIndex := int (length xs)\<rparr>"

text \<open>Samples above the threshold at the times 1000 (a + 1), 1000 (a + 2), ...\<close>

definition steady_beats :: "nat \<Rightarrow> nat \<Rightarrow> (32 word \<times> int) list" where
  "steady_beats a n = map (\<lambda>k. (of_nat (1000 * (k + 1)), 600)) [a..<a + n]"

section \<open>Basic facts about the integer operations\<close>

lemma int32_id: "is_int32 x \<Longrightarrow> int32 x = x"
  by (simp add: int32_def is_int32_def)

lemma c_mod_nonneg: "0 \<le> a \<Longrightarrow> 0 < b \<Longrightarrow> c_mod a b = a mod b"
  by (simp add: c_mod_def c_div_def minus_div_mult_eq_mod)

lemma next_index: "0 \<le> i \<Longrightarrow> c_mod (i + 1) 128 = (i + 1) mod 128"
  by (simp add: c_mod_nonneg)

lemma flat_from_iff:
  "flat_from w i = (\<forall>j. i \<le> j \<and> j < 128 \<longrightarrow> c_abs (int32 (w ! j - w ! (j - 1))) \<le> 1)"
proof (induction w i rule: flat_from.induct)
  case (1 w i)
  show ?case
  proof (cases "i < 128")
    case False
    then show ?thesis
      by (subst flat_from.simps) (simp add: ECG_SAMPLE_SIZE_def)
  next
    case True
    show ?thesis
    proof (cases "1 < c_abs (int32 (w ! i - w ! (i - 1)))")
      case big: True
      then have "\<not> flat_from w i"
        using True by (subst flat_from.simps) (simp add: ECG_SAMPLE_SIZE_def)
      moreover have "\<not> (\<forall>j. i \<le> j \<and> j < 128 \<longrightarrow> c_abs (int32 (w ! j - w ! (j - 1))) \<le> 1)"
        using big True by (auto intro!: exI[of _ i])
      ultimately show ?thesis by blast
    next
      case small: False
      then have "flat_from w i = flat_from w (Suc i)"
        using True by (subst flat_from.simps) (simp add: ECG_SAMPLE_SIZE_def)
      also have "\<dots> = (\<forall>j. Suc i \<le> j \<and> j < 128 \<longrightarrow> c_abs (int32 (w ! j - w ! (j - 1))) \<le> 1)"
        using "1.IH" True small by (simp add: ECG_SAMPLE_SIZE_def)
      also have "\<dots> = (\<forall>j. i \<le> j \<and> j < 128 \<longrightarrow> c_abs (int32 (w ! j - w ! (j - 1))) \<le> 1)"
        using small by (metis Suc_leI le_eq_less_or_eq not_less_eq_eq linorder_not_less)
      finally show ?thesis .
    qed
  qed
qed

lemma small_step: "\<bar>d\<bar> \<le> 1 \<Longrightarrow> c_abs (int32 d) \<le> 1"
  by (auto simp: c_abs_def int32_def)

lemma small_step_iff:
  "\<bar>a\<bar> \<le> 1073741823 \<Longrightarrow> \<bar>b\<bar> \<le> 1073741823 \<Longrightarrow> c_abs (int32 (a - b)) \<le> 1 \<longleftrightarrow> \<bar>a - b\<bar> \<le> 1"
  by (auto simp: c_abs_def int32_def)

lemma minimalVariation_adjacent:
  "(\<forall>i. 1 \<le> i \<and> i < 128 \<longrightarrow> \<bar>w ! i - w ! (i - 1)\<bar> \<le> 1) \<Longrightarrow> minimalVariation w"
  by (simp add: minimalVariation_def flat_from_iff small_step)

section \<open>The pulse detector\<close>

lemma detectPulse_rejected:
  "\<not> (560 < s \<and> 600 < now - lastBeatTime st) \<Longrightarrow> detectPulse now s st = Some st"
  by (auto simp: detectPulse_def beat_accepted_def UpperThreshold_def)

lemma detectPulse_accepted:
  assumes "560 < s" "600 < now - lastBeatTime st" "0 \<le> nnIndex st" "nnIndex st < 128"
  shows "detectPulse now s st =
           Some (st\<lparr>lastBeatTime := now,
                    nnIntervals := (nnIntervals st)[nat (nnIndex st) := now - lastBeatTime st],
                    nnIndex := (nnIndex st + 1) mod 128,
                    pulseCount := int32 (pulseCount st + 1)\<rparr>)"
  using assms
  by (simp add: detectPulse_def beat_accepted_def UpperThreshold_def next_index
      ECG_SAMPLE_SIZE_def Let_def)

text \<open>
  C1 (amended). A sample \<open>s\<close> read at time \<open>now\<close> is accepted as a beat exactly when
  \<open>s > 560\<close> and \<open>now - lastBeatTime > 600\<close>. An accepted beat sets \<open>lastBeatTime\<close> to
  \<open>now\<close>, stores \<open>now - lastBeatTime\<close> in the interval history at the write index, advances
  the write index modulo 128 and adds one to the beat counter; any other sample leaves
  the state as it is. A sample read at most 600 ms after an accepted beat is not recorded,
  whatever its value: it leaves \<open>lastBeatTime\<close>, the interval history and the beat counter
  unchanged. Of two samples above the threshold less than 600 ms apart, the first is the
  one recorded when it is itself accepted.
\<close>

theorem pulse_detector_contract:
  assumes idx: "0 \<le> nnIndex st" "nnIndex st < 128"
    and cnt: "is_int32 (pulseCount st)" "pulseCount st < 2147483647"
  shows "(560 < s \<and> 600 < now - lastBeatTime st \<longrightarrow>
            detectPulse now s st =
              Some (st\<lparr>lastBeatTime := now,
                       nnIntervals := (nnIntervals st)[nat (nnIndex st) := now - lastBeatTime st],
                       nnIndex := (nnIndex st + 1) mod 128,
                       pulseCount := pulseCount st + 1\<rparr>)) \<and>
         (\<not> (560 < s \<and> 600 < now - lastBeatTime st) \<longrightarrow> detectPulse now s st = Some st) \<and>
         (\<forall>st1 now2 s2. 560 < s \<and> 600 < now - lastBeatTime st \<and>
              detectPulse now s st = Some st1 \<and> now2 - now \<le> 600 \<longrightarrow>
              detectPulse now2 s2 st1 = Some st1)"
proof -
  have wrap: "int32 (pulseCount st + 1) = pulseCount st + 1"
    using cnt by (intro int32_id) (simp add: is_int32_def)
  have acc: "detectPulse now s st =
              Some (st\<lparr>lastBeatTime := now,
                       nnIntervals := (nnIntervals st)[nat (nnIndex st) := now - lastBeatTime st],
                       nnIndex := (nnIndex st + 1) mod 128,
                       pulseCount := pulseCount st + 1\<rparr>)"
    if "560 < s" "600 < now - lastBeatTime st"
    using detectPulse_accepted[OF that idx] wrap by simp
  have refr: "detectPulse now2 s2 st1 = Some st1"
    if "560 < s" "600 < now - lastBeatTime st" "detectPulse now s st = Some st1"
      "now2 - now \<le> 600" for st1 now2 s2
  proof -
    have "lastBeatTime st1 = now" using acc[OF that(1,2)] that(3) by auto
    then show ?thesis using that(4)
      by (intro detectPulse_rejected) auto
  qed
  show ?thesis using acc detectPulse_rejected refr by blast
qed

theorem pulse_detector_contract_witness:
  "detectPulse 1000 600 initial_state =
     Some (initial_state\<lparr>lastBeatTime := 1000,
             nnIntervals := (nnIntervals initial_state)[0 := 1000],
             nnIndex := 1, pulseCount := 1\<rparr>) \<and>
   detectPulse 1000 560 initial_state = Some initial_state \<and>
   detectPulse 1600 1023 (initial_state\<lparr>lastBeatTime := 1000,
             nnIntervals := (nnIntervals initial_state)[0 := 1000],
             nnIndex := 1, pulseCount := 1\<rparr>) =
     Some (initial_state\<lparr>lastBeatTime := 1000,
             nnIntervals := (nnIntervals initial_state)[0 := 1000],
             nnIndex := 1, pulseCount := 1\<rparr>)"
proof -
  have pre: "0 \<le> nnIndex initial_state" "nnIndex initial_state < 128"
    "is_int32 (pulseCount initial_state)" "pulseCount initial_state < 2147483647"
    by (simp_all add: initial_state_def is_int32_def)
  have a: "lastBeatTime initial_state = 0" "nnIndex initial_state = 0"
    "pulseCount initial_state = 0"
    by (simp_all add: initial_state_def)
  note c = pulse_detector_contract[OF pre, of 600 1000]
  note d = pulse_detector_contract[OF pre, of 560 1000]
  have 1: "detectPulse 1000 600 initial_state =
     Some (initial_state\<lparr>lastBeatTime := 1000,
             nnIntervals := (nnIntervals initial_state)[0 := 1000],
             nnIndex := 1, pulseCount := 1\<rparr>)"
    using c by (simp add: a)
  have 2: "detectPulse 1000 560 initial_state = Some initial_state"
    using d by simp
  have 3: "detectPulse 1600 1023 (initial_state\<lparr>lastBeatTime := 1000,
             nnIntervals := (nnIntervals initial_state)[0 := 1000],
             nnIndex := 1, pulseCount := 1\<rparr>) =
     Some (initial_state\<lparr>lastBeatTime := 1000,
             nnIntervals := (nnIntervals initial_state)[0 := 1000],
             nnIndex := 1, pulseCount := 1\<rparr>)"
    using c 1 by (simp add: a)
  show ?thesis using 1 2 3 by blast
qed

text \<open>
  Two samples above the threshold, 200 ms apart, after the start: the first comes less
  than 600 ms after \<open>lastBeatTime = 0\<close> and is not recorded, the second is recorded.
\<close>

theorem second_of_two_close_samples_recorded:
  "(700 - 500 :: 32 word) < 600 \<and> UpperThreshold < 600 \<and>
   detectPulse 500 600 initial_state = Some initial_state \<and>
   detectPulses [(500, 600), (700, 600)] initial_state =
     Some (initial_state\<lparr>lastBeatTime := 700,
             nnIntervals := (replicate 128 0)[0 := 700],
             nnIndex := 1, pulseCount := 1\<rparr>)"
  by (simp add: detectPulse_def beat_accepted_def UpperThreshold_def initial_state_def
      ECG_SAMPLE_SIZE_def int32_def c_mod_def c_div_def)

section \<open>The motors follow the level\<close>

text \<open>
  C8. After every pass of \<open>loop\<close> the two motor pins are determined by the stress level
  alone: both are on for \<open>Very High\<close>, the first is on and the second off for \<open>High\<close>, and
  both are off for every other value of the level.
\<close>

theorem motors_follow_stress_level:
  "(loop t v st = Some st' \<longrightarrow>
      pins st' motor1 = (stressLevel st' = ''Very High'' \<or> stressLevel st' = ''High'') \<and>
      pins st' motor2 = (stressLevel st' = ''Very High'')) \<and>
   pins (controlVibeMotors level st) motor1 = (level = ''Very High'' \<or> level = ''High'') \<and>
   pins (controlVibeMotors level st) motor2 = (level = ''Very High'')"
  by (auto simp: loop_def transmit_def controlVibeMotors_def digitalWrite_def
      motor1_def motor2_def split: bind_splits if_splits)

lemma to_float_0: "to_float 0 = 0"
  by (simp add: to_float_def ieee_round_def)

lemma loop_at_start:
  "loop 0 600 initial_state =
     Some (initial_state\<lparr>ecgWaveform := (ecgWaveform initial_state)[0 := 11], ecgIndex := 1,
             pins := (\<lambda>_. False)\<rparr>)"
  by (simp add: loop_def storeSample_def detectPulse_def beat_accepted_def
      evaluateWindow_def window_elapsed_def transmit_def controlVibeMotors_def
      digitalWrite_def initial_state_def ECG_SAMPLE_SIZE_def ECG_AMPLITUDE_def
      UpperThreshold_def interval_def transmissionInterval_def arduino_map_def
      int32_def c_div_def c_mod_def fun_upd_def)

theorem motors_follow_stress_level_witness:
  "\<exists>st'. loop 0 600 initial_state = Some st' \<and> \<not> pins st' motor1 \<and> \<not> pins st' motor2 \<and>
     pins (controlVibeMotors ''Very High'' initial_state) motor1 \<and>
     pins (controlVibeMotors ''Very High'' initial_state) motor2 \<and>
     pins (controlVibeMotors ''High'' initial_state) motor1 \<and>
     \<not> pins (controlVibeMotors ''High'' initial_state) motor2 \<and>
     \<not> pins (controlVibeMotors '''' initial_state) motor1 \<and>
     \<not> pins (controlVibeMotors '''' initial_state) motor2"
  using motors_follow_stress_level[of 0 600 initial_state _ "''Very High''"]
    motors_follow_stress_level[of 0 600 initial_state _ "''High''"]
    motors_follow_stress_level[of 0 600 initial_state _ "''''"]
    loop_at_start
  by (simp add: initial_state_def)

section \<open>What each stage leaves unchanged\<close>

lemma computeHRV_frame:
  assumes "computeHRV st = Some st'"
  shows "\<exists>a b. st' = st\<lparr>sdnn := a, rmssd := b\<rparr>"
proof (cases "nnIndex st < 2")
  case True
  then show ?thesis using assms by (auto simp: computeHRV_def)
next
  case False
  then show ?thesis using assms
    unfolding computeHRV_def Let_def
    by (simp split: if_splits option.splits) blast
qed

lemma evaluateWindow_not_elapsed:
  assumes "t - intervalStartTime st < 10000"
  shows "evaluateWindow t st = Some st"
proof -
  have "\<not> 10000 \<le> t - intervalStartTime st"
    using assms by (simp add: not_le)
  then show ?thesis
    by (simp add: evaluateWindow_def window_elapsed_def interval_def)
qed

lemma evaluateWindow_elapsed:
  assumes "evaluateWindow t st = Some st'" "10000 \<le> t - intervalStartTime st"
  shows "\<exists>b a r. estimateBPM st = Some b \<and>
           computeHRV (st\<lparr>intervalStartTime := t, bpm := b\<rparr>) =
             Some (st\<lparr>intervalStartTime := t, bpm := b, sdnn := a, rmssd := r\<rparr>) \<and>
           st' = (flatlineGuard (st\<lparr>intervalStartTime := t, bpm := b, sdnn := a, rmssd := r,
                    stressLevel := classify b a r\<rparr>))\<lparr>pulseCount := 0\<rparr>"
proof -
  have ev: "estimateBPM st \<bind>
     (\<lambda>b. computeHRV (st\<lparr>intervalStartTime := t, bpm := b\<rparr>) \<bind>
          (\<lambda>st1. Some ((flatlineGuard
                    (st1\<lparr>stressLevel := classify (bpm st1) (sdnn st1) (rmssd st1)\<rparr>))
                   \<lparr>pulseCount := 0\<rparr>))) = Some st'"
    using assms by (simp add: evaluateWindow_def window_elapsed_def interval_def)
  then obtain b where b: "estimateBPM st = Some b"
    by (cases "estimateBPM st") auto
  with ev obtain st1 where h: "computeHRV (st\<lparr>intervalStartTime := t, bpm := b\<rparr>) = Some st1"
    by (cases "computeHRV (st\<lparr>intervalStartTime := t, bpm := b\<rparr>)") auto
  from ev b h have st': "st' = (flatlineGuard
       (st1\<lparr>stressLevel := classify (bpm st1) (sdnn st1) (rmssd st1)\<rparr>))\<lparr>pulseCount := 0\<rparr>"
    by simp
  from computeHRV_frame[OF h] obtain a r
    where st1: "st1 = st\<lparr>intervalStartTime := t, bpm := b, sdnn := a, rmssd := r\<rparr>"
    by auto
  have "st' = (flatlineGuard (st\<lparr>intervalStartTime := t, bpm := b, sdnn := a, rmssd := r,
                    stressLevel := classify b a r\<rparr>))\<lparr>pulseCount := 0\<rparr>"
    unfolding st' st1 by simp
  then show ?thesis using b h st1 by blast
qed

lemma evaluateWindow_flat:
  assumes "evaluateWindow t st = Some st'" "10000 \<le> t - intervalStartTime st"
    "minimalVariation (ecgWaveform st)"
  shows "bpm st' = 0 \<and> stressLevel st' = ''None''"
  using evaluateWindow_elapsed[OF assms(1,2)] assms(3)
  by (auto simp: flatlineGuard_def)

section \<open>The classifier\<close>

lemma classify_table: "classify b s r = level_name (spec_classify b s r)"
  by (simp add: classify_def spec_classify_def first_match_def classifier_rules_def)

text \<open>
  C3. The level computed by the code is the one the rule table gives for
  (bpm, sdnn, rmssd): \<open>None\<close> when bpm is not positive, else the level of the first
  rule that matches, else \<open>Low\<close>. The level stored at the end of an evaluation window
  is this function of the stored bpm, sdnn and rmssd. (91, 49, 29) gives \<open>Very High\<close>;
  (91, 50, 29) does not match the first rule and is decided by the remaining rules.
\<close>

theorem classifier_first_match:
  "classify b s r = level_name (spec_classify b s r) \<and>
   (evaluateWindow t st = Some st' \<and> 10000 \<le> t - intervalStartTime st \<longrightarrow>
      stressLevel st' = level_name (spec_classify (bpm st') (sdnn st') (rmssd st'))) \<and>
   spec_classify 91 49 29 = VeryHigh \<and>
   first_match classifier_rules (91, 50, 29) = first_match (tl classifier_rules) (91, 50, 29)"
proof -
  have "stressLevel st' = classify (bpm st') (sdnn st') (rmssd st')"
    if "evaluateWindow t st = Some st'" "10000 \<le> t - intervalStartTime st"
  proof (cases "minimalVariation (ecgWaveform st)")
    case True
    have "classify 0 (sdnn st') (rmssd st') = ''None''"
      by (simp add: classify_def)
    then show ?thesis
      using evaluateWindow_flat[OF that True] by simp
  next
    case False
    then show ?thesis
      using evaluateWindow_elapsed[OF that] by (auto simp: flatlineGuard_def)
  qed
  moreover have "spec_classify 91 49 29 = VeryHigh"
    by (simp add: spec_classify_def first_match_def classifier_rules_def)
  moreover have
    "first_match classifier_rules (91, 50, 29) = first_match (tl classifier_rules) (91, 50, 29)"
    by (simp add: first_match_def classifier_rules_def)
  ultimately show ?thesis
    using classify_table by simp
qed

section \<open>Evaluating a window\<close>

lemma estimateBPM_beats:
  assumes "0 < pulseCount st" "pulseCount st \<le> 35791394"
  shows "estimateBPM st = Some (pulseCount st * 6)"
proof -
  have "int32 (pulseCount st * 60) = pulseCount st * 60"
    using assms by (intro int32_id) (simp add: is_int32_def)
  moreover have "c_div interval 1000 = 10"
    by (simp add: c_div_def interval_def)
  moreover have "c_div (pulseCount st * 60) 10 = pulseCount st * 6"
    using assms by (simp add: c_div_def)
  ultimately show ?thesis
    using assms by (simp add: estimateBPM_def)
qed

lemma evaluateWindow_beats:
  assumes "10000 \<le> t - intervalStartTime st" "0 < pulseCount st" "pulseCount st \<le> 35791394"
    "nnIndex st < 2"
  shows "evaluateWindow t st =
           Some ((flatlineGuard (st\<lparr>intervalStartTime := t, bpm := pulseCount st * 6,
                    sdnn := 0, rmssd := 0, stressLevel := classify (pulseCount st * 6) 0 0\<rparr>))
                 \<lparr>pulseCount := 0\<rparr>)"
  using assms estimateBPM_beats[OF assms(2,3)]
  by (simp add: evaluateWindow_def window_elapsed_def interval_def computeHRV_def)

lemma not_flat_example: "\<not> minimalVariation ((replicate 128 0)[5 := 9])"
proof
  assume "minimalVariation ((replicate 128 0)[5 := 9])"
  then have "\<forall>j. 1 \<le> j \<and> j < 128 \<longrightarrow>
      c_abs (int32 (((replicate 128 0)[5 := 9]) ! j - ((replicate 128 0)[5 := 9]) ! (j - 1))) \<le> 1"
    by (simp add: minimalVariation_def flat_from_iff)
  then have "c_abs (int32 (((replicate 128 0)[5 := 9]) ! 5 - ((replicate 128 0)[5 := 9]) ! (5 - 1))) \<le> 1"
    by (rule allE[of _ "5::nat"]) simp
  then show False
    by (simp add: c_abs_def int32_def)
qed




theorem classifier_first_match_witness:
  "\<exists>st'. evaluateWindow 10000
            (initial_state\<lparr>pulseCount := 16, ecgWaveform := (replicate 128 0)[5 := 9]\<rparr>) = Some st' \<and>
         bpm st' = 96 \<and> sdnn st' = 0 \<and> rmssd st' = 0 \<and> stressLevel st' = ''Very High'' \<and>
         stressLevel st' = level_name (spec_classify (bpm st') (sdnn st') (rmssd st'))"
proof -
  let ?st = "initial_state\<lparr>pulseCount := 16, ecgWaveform := (replicate 128 0)[5 := 9]\<rparr>"
  have el: "10000 \<le> (10000 :: 32 word) - intervalStartTime ?st"
    by (simp add: initial_state_def)
  have "evaluateWindow 10000 ?st =
           Some ((flatlineGuard (?st\<lparr>intervalStartTime := 10000, bpm := pulseCount ?st * 6,
                    sdnn := 0, rmssd := 0, stressLevel := classify (pulseCount ?st * 6) 0 0\<rparr>))
                 \<lparr>pulseCount := 0\<rparr>)"
    by (rule evaluateWindow_beats) (simp_all add: initial_state_def)
  then have ev: "evaluateWindow 10000 ?st =
      Some (?st\<lparr>intervalStartTime := 10000, bpm := 96, sdnn := 0, rmssd := 0,
               stressLevel := ''Very High'', pulseCount := 0\<rparr>)"
    using not_flat_example by (simp add: flatlineGuard_def classify_def)
  let ?st' = "?st\<lparr>intervalStartTime := 10000, bpm := 96, sdnn := 0, rmssd := 0,
               stressLevel := ''Very High'', pulseCount := 0\<rparr>"
  have "stressLevel ?st' = level_name (spec_classify (bpm ?st') (sdnn ?st') (rmssd ?st'))"
    using classifier_first_match[of 96 0 0 10000 ?st ?st'] ev el by blast
  then show ?thesis
    using ev by simp
qed

section \<open>Passes outside the evaluation window\<close>

lemma storeSample_frame:
  assumes "storeSample v st = Some st'"
  shows "\<exists>w i. st' = st\<lparr>ecgWaveform := w, ecgIndex := i\<rparr>"
  using assms by (auto simp: storeSample_def split: if_splits)

lemma detectPulse_frame:
  assumes "detectPulse t v st = Some st'"
  shows "\<exists>l h j p. st' = st\<lparr>lastBeatTime := l, nnIntervals := h, nnIndex := j, pulseCount := p\<rparr>"
proof (cases "beat_accepted t v st")
  case True
  then show ?thesis
    using assms by (auto simp: detectPulse_def Let_def split: if_splits)
next
  case False
  then have "st' = st" using assms by (simp add: detectPulse_def)
  then have "st' = st\<lparr>lastBeatTime := lastBeatTime st, nnIntervals := nnIntervals st,
      nnIndex := nnIndex st, pulseCount := pulseCount st\<rparr>"
    by simp
  then show ?thesis by blast
qed

lemma actuate_transmit_frame:
  "\<exists>tx pn. transmit t (controlVibeMotors level st) = st\<lparr>lastTransmissionTime := tx, pins := pn\<rparr>"
proof -
  have "\<exists>pn. controlVibeMotors level st = st\<lparr>pins := pn\<rparr>"
    by (auto simp: controlVibeMotors_def digitalWrite_def)
  then obtain pn where c: "controlVibeMotors level st = st\<lparr>pins := pn\<rparr>" ..
  show ?thesis
  proof (cases "transmissionInterval \<le> t - lastTransmissionTime (st\<lparr>pins := pn\<rparr>)")
    case True
    then have "transmit t (controlVibeMotors level st) = st\<lparr>lastTransmissionTime := t, pins := pn\<rparr>"
      unfolding c by (simp add: transmit_def)
    then show ?thesis by blast
  next
    case False
    then have "transmit t (controlVibeMotors level st) =
        st\<lparr>lastTransmissionTime := lastTransmissionTime st, pins := pn\<rparr>"
      unfolding c by (simp add: transmit_def)
    then show ?thesis by blast
  qed
qed

text \<open>
  C9. In a pass of \<open>loop\<close> in which less than 10000 ms have elapsed since
  \<open>intervalStartTime\<close>, the evaluation of the window does nothing: bpm, sdnn, rmssd,
  the stress level and \<open>intervalStartTime\<close> keep their values, and the state after the
  pass differs from the state before it at most in the waveform buffer and its index,
  the interval history and its index, \<open>lastBeatTime\<close>, \<open>pulseCount\<close>,
  \<open>lastTransmissionTime\<close> and the motor pins.
\<close>

theorem outside_window_frame:
  assumes "loop t v st = Some st'" "t - intervalStartTime st < 10000"
  shows "bpm st' = bpm st \<and> sdnn st' = sdnn st \<and> rmssd st' = rmssd st \<and>
         stressLevel st' = stressLevel st \<and> intervalStartTime st' = intervalStartTime st \<and>
         (\<exists>w i h j l p tx pn.
            st' = st\<lparr>ecgWaveform := w, ecgIndex := i, nnIntervals := h, nnIndex := j,
                     lastBeatTime := l, pulseCount := p, lastTransmissionTime := tx,
                     pins := pn\<rparr>) \<and>
         (\<forall>s. intervalStartTime s = intervalStartTime st \<longrightarrow> evaluateWindow t s = Some s)"
proof -
  from assms(1) obtain st1 where s1: "storeSample v st = Some st1"
    by (cases "storeSample v st") (auto simp: loop_def)
  with assms(1) obtain st2 where s2: "detectPulse t v st1 = Some st2"
    by (cases "detectPulse t v st1") (auto simp: loop_def)
  from storeSample_frame[OF s1] obtain w i
    where e1: "st1 = st\<lparr>ecgWaveform := w, ecgIndex := i\<rparr>" by blast
  from detectPulse_frame[OF s2] obtain l h j p
    where e2: "st2 = st1\<lparr>lastBeatTime := l, nnIntervals := h, nnIndex := j, pulseCount := p\<rparr>"
    by blast
  have still: "t - intervalStartTime st2 < 10000"
    using assms(2) by (simp add: e1 e2)
  have s3: "evaluateWindow t st2 = Some st2"
    by (rule evaluateWindow_not_elapsed[OF still])
  have out: "st' = transmit t (controlVibeMotors (stressLevel st2) st2)"
    using assms(1) s1 s2 s3 by (simp add: loop_def)
  from actuate_transmit_frame[of t "stressLevel st2" st2] obtain tx pn
    where e3: "st' = st2\<lparr>lastTransmissionTime := tx, pins := pn\<rparr>"
    unfolding out by blast
  have eq: "st' = st\<lparr>ecgWaveform := w, ecgIndex := i, nnIntervals := h, nnIndex := j,
                     lastBeatTime := l, pulseCount := p, lastTransmissionTime := tx,
                     pins := pn\<rparr>"
    by (simp add: e1 e2 e3)
  have win: "evaluateWindow t s = Some s" if "intervalStartTime s = intervalStartTime st" for s
    using assms(2) that by (intro evaluateWindow_not_elapsed) simp
  have "bpm st' = bpm st \<and> sdnn st' = sdnn st \<and> rmssd st' = rmssd st \<and>
         stressLevel st' = stressLevel st \<and> intervalStartTime st' = intervalStartTime st"
    by (simp add: eq)
  then show ?thesis using eq win by blast
qed

theorem outside_window_frame_witness:
  "\<exists>st'. loop 9999 600 (initial_state\<lparr>bpm := 72, sdnn := 40, rmssd := 25,
                                       stressLevel := ''Low''\<rparr>) = Some st' \<and>
         bpm st' = 72 \<and> sdnn st' = 40 \<and> rmssd st' = 25 \<and> stressLevel st' = ''Low'' \<and>
         pulseCount st' = 1 \<and> lastBeatTime st' = 9999"
proof -
  let ?st = "initial_state\<lparr>bpm := 72, sdnn := 40, rmssd := 25, stressLevel := ''Low''\<rparr>"
  have run: "loop 9999 600 ?st =
     Some (?st\<lparr>ecgWaveform := (ecgWaveform initial_state)[0 := 11], ecgIndex := 1,
             lastBeatTime := 9999, nnIntervals := (nnIntervals initial_state)[0 := 9999],
             nnIndex := 1, pulseCount := 1,
             lastTransmissionTime := 9999, pins := (\<lambda>_. False)\<rparr>)"
    by (simp add: loop_def storeSample_def detectPulse_def beat_accepted_def
      evaluateWindow_def window_elapsed_def transmit_def controlVibeMotors_def
      digitalWrite_def initial_state_def ECG_SAMPLE_SIZE_def ECG_AMPLITUDE_def
      UpperThreshold_def interval_def transmissionInterval_def arduino_map_def
      int32_def c_div_def c_mod_def fun_upd_def)
  have lt: "(9999 :: 32 word) - intervalStartTime ?st < 10000"
    by (simp add: initial_state_def)
  show ?thesis
    using outside_window_frame[OF run lt] run by simp
qed

section \<open>The flatline test looks at stored neighbours only\<close>

lemma minimalVariation_iff:
  assumes "length w = 128" "\<forall>x\<in>set w. \<bar>x\<bar> \<le> 1073741823"
  shows "minimalVariation w = (\<forall>i. 1 \<le> i \<and> i < 128 \<longrightarrow> \<bar>w ! i - w ! (i - 1)\<bar> \<le> 1)"
proof -
  have "c_abs (int32 (w ! i - w ! (i - 1))) \<le> 1 \<longleftrightarrow> \<bar>w ! i - w ! (i - 1)\<bar> \<le> 1"
    if "i < 128" for i
  proof -
    have "w ! i \<in> set w" "w ! (i - 1) \<in> set w"
      using that assms(1) by (auto intro!: nth_mem)
    then show ?thesis
      using assms(2) by (intro small_step_iff) auto
  qed
  then show ?thesis
    by (auto simp: minimalVariation_def flat_from_iff)
qed

text \<open>
  C10. The flatline test compares each slot \<open>i\<close> of the buffer, for \<open>i\<close> from 1 to 127,
  with slot \<open>i - 1\<close>, in the order of storage: its verdict is that all these 127 pairs
  differ by at most 1. It does not depend on the write index and does not compare slot
  127 with slot 0: a buffer whose stored neighbours differ by at most 1 is judged flat,
  and the window ends with bpm 0 and level \<open>None\<close>, also when slot 127 and slot 0 differ
  by more than 1.
\<close>

theorem flatline_stored_neighbours:
  "(length w = 128 \<and> (\<forall>x\<in>set w. \<bar>x\<bar> \<le> 1073741823) \<longrightarrow>
      minimalVariation w = (\<forall>i. 1 \<le> i \<and> i < 128 \<longrightarrow> \<bar>w ! i - w ! (i - 1)\<bar> \<le> 1)) \<and>
   flatlineGuard (st\<lparr>ecgIndex := k\<rparr>) = (flatlineGuard st)\<lparr>ecgIndex := k\<rparr> \<and>
   (evaluateWindow t st = Some st' \<and> 10000 \<le> t - intervalStartTime st \<and>
    (\<forall>i. 1 \<le> i \<and> i < 128 \<longrightarrow> \<bar>ecgWaveform st ! i - ecgWaveform st ! (i - 1)\<bar> \<le> 1) \<and>
    1 < \<bar>ecgWaveform st ! 127 - ecgWaveform st ! 0\<bar> \<longrightarrow>
      bpm st' = 0 \<and> stressLevel st' = ''None'')"
proof -
  have "flatlineGuard (st\<lparr>ecgIndex := k\<rparr>) = (flatlineGuard st)\<lparr>ecgIndex := k\<rparr>"
    by (simp add: flatlineGuard_def)
  moreover have "bpm st' = 0 \<and> stressLevel st' = ''None''"
    if "evaluateWindow t st = Some st'" "10000 \<le> t - intervalStartTime st"
      "\<forall>i. 1 \<le> i \<and> i < 128 \<longrightarrow> \<bar>ecgWaveform st ! i - ecgWaveform st ! (i - 1)\<bar> \<le> 1"
    using evaluateWindow_flat[OF that(1,2) minimalVariation_adjacent[OF that(3)]] .
  ultimately show ?thesis
    using minimalVariation_iff[of w] by blast
qed


lemma ramp_nth: "i < 128 \<Longrightarrow> ramp ! i = int (i div 8)"
  by (simp add: ramp_def)

lemma ramp_adjacent: "\<forall>i. 1 \<le> i \<and> i < 128 \<longrightarrow> \<bar>ramp ! i - ramp ! (i - 1)\<bar> \<le> 1"
proof (intro allI impI)
  fix i :: nat
  assume i: "1 \<le> i \<and> i < 128"
  then have "i < 128" "i - 1 < 128"
    by auto
  then have "ramp ! i = int (i div 8)" "ramp ! (i - 1) = int ((i - 1) div 8)"
    by (simp_all only: ramp_nth)
  moreover have "(i - 1) div 8 \<le> i div 8" "i div 8 \<le> (i - 1) div 8 + 1"
    using i by presburger+
  ultimately show "\<bar>ramp ! i - ramp ! (i - 1)\<bar> \<le> 1"
    by simp
qed

theorem flatline_stored_neighbours_witness:
  "length ramp = 128 \<and> minimalVariation ramp \<and> 1 < \<bar>ramp ! 127 - ramp ! 0\<bar> \<and>
   (\<exists>st'. evaluateWindow 10000 (initial_state\<lparr>pulseCount := 16, ecgWaveform := ramp\<rparr>) = Some st' \<and>
          bpm st' = 0 \<and> stressLevel st' = ''None'')"
proof -
  let ?st = "initial_state\<lparr>pulseCount := 16, ecgWaveform := ramp\<rparr>"
  have len: "length ramp = 128"
    by (simp add: ramp_def)
  have small: "\<forall>x\<in>set ramp. \<bar>x\<bar> \<le> 1073741823"
    by (auto simp: ramp_def)
  have jump: "1 < \<bar>ramp ! 127 - ramp ! 0\<bar>"
    by (simp add: ramp_nth)
  have el: "10000 \<le> (10000 :: 32 word) - intervalStartTime ?st"
    by (simp add: initial_state_def)
  have "evaluateWindow 10000 ?st =
           Some ((flatlineGuard (?st\<lparr>intervalStartTime := 10000, bpm := pulseCount ?st * 6,
                    sdnn := 0, rmssd := 0, stressLevel := classify (pulseCount ?st * 6) 0 0\<rparr>))
                 \<lparr>pulseCount := 0\<rparr>)"
    by (rule evaluateWindow_beats) (simp_all add: initial_state_def)
  then obtain st' where ev: "evaluateWindow 10000 ?st = Some st'"
    by blast
  note inst = flatline_stored_neighbours[where w = ramp and st = "?st" and t = 10000 and st' = st']
  have flat: "minimalVariation ramp"
    using inst len small ramp_adjacent by blast
  have "bpm st' = 0 \<and> stressLevel st' = ''None''"
    using inst ev el ramp_adjacent jump by simp
  then show ?thesis
    using len flat jump ev by blast
qed

section \<open>The values stored in the interval history\<close>

lemma evaluateWindow_history:
  assumes "evaluateWindow t st = Some st'"
  shows "nnIntervals st' = nnIntervals st \<and> nnIndex st' = nnIndex st \<and>
         lastBeatTime st' = lastBeatTime st"
proof (cases "10000 \<le> t - intervalStartTime st")
  case True
  from evaluateWindow_elapsed[OF assms True] show ?thesis
    by (auto simp: flatlineGuard_def)
next
  case False
  then have "t - intervalStartTime st < 10000" by (simp add: not_le)
  from evaluateWindow_not_elapsed[OF this] assms show ?thesis by simp
qed

lemma loop_history:
  assumes "loop t v st = Some st'"
  shows "nnIntervals st' = nnIntervals st \<or>
         (600 < unat (t - lastBeatTime st) \<and>
          nnIntervals st' = (nnIntervals st)[nat (nnIndex st) := t - lastBeatTime st])"
proof -
  from assms obtain st1 where s1: "storeSample v st = Some st1"
    by (cases "storeSample v st") (auto simp: loop_def)
  with assms obtain st2 where s2: "detectPulse t v st1 = Some st2"
    by (cases "detectPulse t v st1") (auto simp: loop_def)
  with assms s1 obtain st3 where s3: "evaluateWindow t st2 = Some st3"
    by (cases "evaluateWindow t st2") (auto simp: loop_def)
  have out: "st' = transmit t (controlVibeMotors (stressLevel st3) st3)"
    using assms s1 s2 s3 by (simp add: loop_def)
  from storeSample_frame[OF s1] obtain w i
    where e1: "st1 = st\<lparr>ecgWaveform := w, ecgIndex := i\<rparr>" by blast
  from actuate_transmit_frame[of t "stressLevel st3" st3] obtain tx pn
    where e3: "st' = st3\<lparr>lastTransmissionTime := tx, pins := pn\<rparr>"
    unfolding out by blast
  have keep: "nnIntervals st' = nnIntervals st2"
    using evaluateWindow_history[OF s3] by (simp add: e3)
  show ?thesis
  proof (cases "560 < v \<and> 600 < t - lastBeatTime st1")
    case False
    then have "st2 = st1" using detectPulse_rejected[of v t st1] s2 by simp
    then show ?thesis using keep by (simp add: e1)
  next
    case True
    then have "beat_accepted t v st1"
      by (simp add: beat_accepted_def UpperThreshold_def)
    then have "nnIntervals st2 = (nnIntervals st1)[nat (nnIndex st1) := t - lastBeatTime st1]"
      using s2 by (auto simp: detectPulse_def Let_def split: if_splits)
    moreover have "600 < unat (t - lastBeatTime st1)"
      using True by (simp add: word_less_nat_alt)
    ultimately show ?thesis using keep by (simp add: e1)
  qed
qed

lemma run_history:
  assumes "run es st = Some st'" "\<forall>x\<in>set (nnIntervals st). x = 0 \<or> 600 < unat x"
  shows "\<forall>x\<in>set (nnIntervals st'). x = 0 \<or> 600 < unat x"
  using assms
proof (induction es arbitrary: st)
  case Nil
  then show ?case by simp
next
  case (Cons e es)
  obtain t v where e: "e = (t, v)" by (cases e)
  with Cons.prems(1) obtain st1 where l: "loop t v st = Some st1" and r: "run es st1 = Some st'"
    by (cases "loop t v st") auto
  have "\<forall>x\<in>set (nnIntervals st1). x = 0 \<or> 600 < unat x"
    using loop_history[OF l] Cons.prems(2)
    by (auto dest!: set_update_subset_insert[THEN subsetD])
  from Cons.IH[OF r this] show ?case .
qed

text \<open>
  C7. A pass of \<open>loop\<close> either leaves the interval history as it is or stores one value,
  the time since the last beat, and that value is greater than 600. The first beat after
  the start is measured against \<open>lastBeatTime = 0\<close>, so the value stored for it is the
  time of the beat itself. Hence in every run from the initial state the entries of the
  history are either still the initial 0 or greater than 600.
\<close>

theorem nn_interval_above_refractory:
  "(loop t v st = Some st' \<longrightarrow>
      nnIntervals st' = nnIntervals st \<or>
      (600 < unat (t - lastBeatTime st) \<and>
       nnIntervals st' = (nnIntervals st)[nat (nnIndex st) := t - lastBeatTime st])) \<and>
   (560 < v \<and> 600 < t \<and> lastBeatTime st = 0 \<and> 0 \<le> nnIndex st \<and> nnIndex st < 128 \<longrightarrow>
      (\<exists>st1. detectPulse t v st = Some st1 \<and>
             nnIntervals st1 = (nnIntervals st)[nat (nnIndex st) := t])) \<and>
   (run es initial_state = Some st2 \<longrightarrow> (\<forall>x\<in>set (nnIntervals st2). x = 0 \<or> 600 < unat x))"
proof -
  have first: "\<exists>st1. detectPulse t v st = Some st1 \<and>
             nnIntervals st1 = (nnIntervals st)[nat (nnIndex st) := t]"
    if "560 < v" "600 < t" "lastBeatTime st = 0" "0 \<le> nnIndex st" "nnIndex st < 128"
    using detectPulse_accepted[of v t st] that by simp
  have "\<forall>x\<in>set (nnIntervals initial_state). x = 0 \<or> 600 < unat x"
    by (simp add: initial_state_def)
  then have "\<forall>x\<in>set (nnIntervals st2). x = 0 \<or> 600 < unat x"
    if "run es initial_state = Some st2"
    using run_history[OF that] by blast
  then show ?thesis
    using loop_history[of t v st st'] first by blast
qed


lemma loop_first_beat:
  "loop 1000 600 initial_state =
     Some (initial_state\<lparr>ecgWaveform := (ecgWaveform initial_state)[0 := 11], ecgIndex := 1,
             lastBeatTime := 1000, nnIntervals := (replicate 128 0)[0 := 1000],
             nnIndex := 1, pulseCount := 1, pins := (\<lambda>_. False)\<rparr>)"
  by (simp add: loop_def storeSample_def detectPulse_def beat_accepted_def
      evaluateWindow_def window_elapsed_def transmit_def controlVibeMotors_def
      digitalWrite_def initial_state_def ECG_SAMPLE_SIZE_def ECG_AMPLITUDE_def
      UpperThreshold_def interval_def transmissionInterval_def arduino_map_def
      int32_def c_div_def c_mod_def fun_upd_def)

theorem nn_interval_above_refractory_witness:
  "\<exists>st'. run [(1000, 600)] initial_state = Some st' \<and>
         nnIntervals st' = (replicate 128 0)[0 := 1000] \<and>
         (\<forall>x\<in>set (nnIntervals st'). x = 0 \<or> 600 < unat x) \<and>
         (\<exists>st1. detectPulse 1000 600 initial_state = Some st1 \<and>
                nnIntervals st1 = (replicate 128 0)[0 := 1000])"
proof -
  let ?st' = "initial_state\<lparr>ecgWaveform := (ecgWaveform initial_state)[0 := 11], ecgIndex := 1,
             lastBeatTime := 1000, nnIntervals := (replicate 128 0)[0 := 1000],
             nnIndex := 1, pulseCount := 1, pins := (\<lambda>_. False)\<rparr>"
  have r: "run [(1000, 600)] initial_state = Some ?st'"
    by (simp add: loop_first_beat)
  note inst = nn_interval_above_refractory[where t = 1000 and v = 600 and st = initial_state
      and st' = "?st'" and es = "[(1000, 600)]" and ?st2.0 = "?st'"]
  have a: "\<forall>x\<in>set (nnIntervals ?st'). x = 0 \<or> 600 < unat x"
    using inst r by blast
  have i0: "lastBeatTime initial_state = 0" "nnIndex initial_state = 0"
    "nnIntervals initial_state = replicate 128 0"
    by (simp_all add: initial_state_def)
  have b: "\<exists>st1. detectPulse 1000 600 initial_state = Some st1 \<and>
                nnIntervals st1 = (replicate 128 0)[0 := 1000]"
    using inst by (simp add: i0)
  show ?thesis
    using r a b by simp
qed

section \<open>Facts about rounding\<close>

lemma round_even_of_int [simp]: "round_even (of_int m) = m"
  by (simp add: round_even_def)

lemma round_even_mono_le:
  assumes "of_int a \<le> y"
  shows "a \<le> round_even y"
proof -
  have "a \<le> \<lfloor>y\<rfloor>" using assms by (simp add: le_floor_iff)
  then show ?thesis by (auto simp: round_even_def Let_def)
qed

lemma round_even_le:
  assumes "y \<le> of_int b"
  shows "round_even y \<le> b"
proof (cases "y = of_int b")
  case True
  then show ?thesis by simp
next
  case False
  then have "y < of_int b" using assms by simp
  then have "\<lfloor>y\<rfloor> < b" by (simp add: floor_less_iff)
  then show ?thesis by (auto simp: round_even_def Let_def)
qed



text \<open>The exponent chosen by \<open>ieee_round\<close>.\<close>

lemma floor_log2_eq:
  assumes "2 powi k \<le> x" "x < 2 powi (k + 1)"
  shows "\<lfloor>log 2 x\<rfloor> = k"
proof -
  have pos: "0 < x"
    using assms(1) zero_less_power_int[of "2::real" k] by linarith
  have "(2::real) powr real_of_int k = 2 powi k"
    by (simp add: powr_real_of_int')
  moreover have "(2::real) powr (real_of_int k + 1) = 2 powi (k + 1)"
    using powr_real_of_int'[of 2 "k + 1"] by (simp add: add.commute)
  ultimately show ?thesis
    using assms pos by (subst floor_log_eq_powr_iff) simp_all
qed

lemma floor_log2_bounds:
  assumes "0 < x"
  shows "2 powi \<lfloor>log 2 x\<rfloor> \<le> x \<and> x < 2 powi (\<lfloor>log 2 x\<rfloor> + 1)"
proof -
  have "(2::real) powr real_of_int \<lfloor>log 2 x\<rfloor> \<le> x \<and> x < 2 powr (real_of_int \<lfloor>log 2 x\<rfloor> + 1)"
    using floor_log_eq_powr_iff[of x 2 "\<lfloor>log 2 x\<rfloor>"] assms by simp
  moreover have "(2::real) powr real_of_int \<lfloor>log 2 x\<rfloor> = 2 powi \<lfloor>log 2 x\<rfloor>"
    by (simp add: powr_real_of_int')
  moreover have "(2::real) powr (real_of_int \<lfloor>log 2 x\<rfloor> + 1) = 2 powi (\<lfloor>log 2 x\<rfloor> + 1)"
    using powr_real_of_int'[of 2 "\<lfloor>log 2 x\<rfloor> + 1"] by (simp add: add.commute)
  ultimately show ?thesis by simp
qed

lemma ieee_round_at:
  assumes "2 powi k \<le> \<bar>x\<bar>" "\<bar>x\<bar> < 2 powi (k + 1)" "emin \<le> k"
  shows "ieee_round p emin x = of_int (round_even (x / 2 powi (k - p + 1))) * 2 powi (k - p + 1)"
proof -
  have "x \<noteq> 0"
    using assms(1) zero_less_power_int[of "2::real" k] by linarith
  moreover have "max \<lfloor>log 2 \<bar>x\<bar>\<rfloor> emin = k"
    using floor_log2_eq[OF assms(1,2)] assms(3) by simp
  ultimately show ?thesis
    by (simp add: ieee_round_def Let_def)
qed

lemma pow2_less_cancel:
  assumes "(2::real) powi a < 2 powi b"
  shows "a < b"
proof (rule ccontr)
  assume "\<not> a < b"
  then have "(2::real) powi b \<le> 2 powi a"
    by (intro power_int_increasing) simp_all
  with assms show False by simp
qed

lemma ieee_round_exact:
  assumes x: "x = of_int m * 2 powi j" and m: "\<bar>m\<bar> < 2 ^ nat p"
    and j: "emin - p + 1 \<le> j" and p: "0 < p"
  shows "ieee_round p emin x = x"
proof (cases "x = 0")
  case True
  then show ?thesis by (simp add: ieee_round_def)
next
  case False
  define e where "e = max \<lfloor>log 2 \<bar>x\<bar>\<rfloor> emin"
  have "\<bar>x\<bar> = of_int \<bar>m\<bar> * 2 powi j"
    by (simp add: x abs_mult)
  also have "\<dots> < 2 ^ nat p * 2 powi j"
    using m by (intro mult_strict_right_mono) (simp_all flip: of_int_less_iff[where 'a = real])
  also have "\<dots> = 2 powi (p + j)"
    using p by (simp add: power_int_add power_int_nonneg_exp)
  finally have up: "\<bar>x\<bar> < 2 powi (p + j)" .
  have "2 powi \<lfloor>log 2 \<bar>x\<bar>\<rfloor> \<le> \<bar>x\<bar>"
    using floor_log2_bounds[of "\<bar>x\<bar>"] False by simp
  with up have "(2::real) powi \<lfloor>log 2 \<bar>x\<bar>\<rfloor> < 2 powi (p + j)"
    by simp
  then have "\<lfloor>log 2 \<bar>x\<bar>\<rfloor> < p + j"
    by (rule pow2_less_cancel)
  then have le: "e - p + 1 \<le> j"
    using j by (simp add: e_def)
  define n where "n = nat (j - (e - p + 1))"
  have "(2::real) powi j = 2 powi (e - p + 1) * 2 ^ n"
  proof -
    have "j = (e - p + 1) + int n" using le by (simp add: n_def)
    then have "(2::real) powi j = 2 powi ((e - p + 1) + int n)" by simp
    also have "\<dots> = 2 powi (e - p + 1) * 2 powi (int n)"
      by (subst power_int_add) simp_all
    finally show ?thesis by simp
  qed
  then have "x / 2 powi (e - p + 1) = of_int (m * 2 ^ n)"
    by (simp add: x)
  then have "of_int (round_even (x / 2 powi (e - p + 1))) * 2 powi (e - p + 1) = x"
    by (simp only: round_even_of_int) (simp add: x \<open>(2::real) powi j = 2 powi (e - p + 1) * 2 ^ n\<close>)
  then show ?thesis
    using False by (simp add: ieee_round_def Let_def e_def)
qed

lemma to_float_of_int:
  assumes "\<bar>m\<bar> < 16777216"
  shows "to_float (of_int m) = of_int m"
  unfolding to_float_def
  using assms by (intro ieee_round_exact[where m = m and j = 0]) simp_all


section \<open>The decay of bpm\<close>







section \<open>More facts about rounding\<close>

lemma ieee_round_ge_pow2:
  assumes "2 powi k \<le> x" "emin \<le> k" "0 < p"
  shows "2 powi k \<le> ieee_round p emin x"
proof -
  have xpos: "0 < x"
    using assms(1) zero_less_power_int[of "2::real" k] by linarith
  define e where "e = \<lfloor>log 2 x\<rfloor>"
  have lo: "2 powi e \<le> x" and hi: "x < 2 powi (e + 1)"
    using floor_log2_bounds[OF xpos] by (simp_all add: e_def)
  from assms(1) hi have "(2::real) powi k < 2 powi (e + 1)" by simp
  then have ke: "k \<le> e" using pow2_less_cancel by fastforce
  define q :: real where "q = 2 powi (e - p + 1)"
  have qpos: "0 < q" by (simp add: q_def)
  have split: "(2::real) powi e = 2 ^ nat (p - 1) * q"
  proof -
    define m where "m = nat (p - 1)"
    have "e = int m + (e - p + 1)" using assms(3) by (simp add: m_def)
    then have "(2::real) powi e = 2 powi (int m + (e - p + 1))" by (rule arg_cong)
    also have "\<dots> = 2 powi int m * 2 powi (e - p + 1)"
      by (subst power_int_add) simp_all
    finally have "(2::real) powi e = 2 ^ m * 2 powi (e - p + 1)"
      by (simp only: power_int_of_nat)
    then show ?thesis by (simp only: q_def m_def)
  qed
  have "of_int (2 ^ nat (p - 1)) \<le> x / q"
    using lo split qpos by (simp add: field_simps)
  then have "2 ^ nat (p - 1) \<le> round_even (x / q)"
    by (rule round_even_mono_le)
  then have "real_of_int (2 ^ nat (p - 1)) \<le> of_int (round_even (x / q))"
    by (simp only: of_int_le_iff)
  then have "2 ^ nat (p - 1) * q \<le> of_int (round_even (x / q)) * q"
    using qpos by simp
  then have "2 powi e \<le> of_int (round_even (x / q)) * q"
    by (simp add: split)
  moreover have "(2::real) powi k \<le> 2 powi e"
    using ke by (intro power_int_increasing) simp_all
  moreover have "ieee_round p emin x = of_int (round_even (x / q)) * q"
    using xpos ke assms(2) by (simp add: ieee_round_def Let_def e_def q_def)
  ultimately show ?thesis by simp
qed

lemma to_float_ge_pow2: "2 powi k \<le> x \<Longrightarrow> - 126 \<le> k \<Longrightarrow> 2 powi k \<le> to_float x"
  unfolding to_float_def by (rule ieee_round_ge_pow2) simp_all

lemma to_double_ge_pow2: "2 powi k \<le> x \<Longrightarrow> - 1022 \<le> k \<Longrightarrow> 2 powi k \<le> to_double x"
  unfolding to_double_def by (rule ieee_round_ge_pow2) simp_all

lemma to_double_of_int:
  assumes "\<bar>m\<bar> < 9007199254740992"
  shows "to_double (of_int m) = of_int m"
  unfolding to_double_def
  using assms by (intro ieee_round_exact[where m = m and j = 0]) simp_all

lemma to_float_numeral:
  "numeral n < (16777216 :: int) \<Longrightarrow> to_float (numeral n) = numeral n"
  "numeral n < (16777216 :: int) \<Longrightarrow> to_float (- numeral n) = - numeral n"
  using to_float_of_int[of "numeral n"] to_float_of_int[of "- numeral n"] by simp_all

lemma to_double_numeral:
  "numeral n < (9007199254740992 :: int) \<Longrightarrow> to_double (numeral n) = numeral n"
  using to_double_of_int[of "numeral n"] by simp

lemma to_float_1: "to_float 1 = 1"
  using to_float_of_int[of 1] by simp

lemma to_double_0: "to_double 0 = 0"
  by (simp add: to_double_def ieee_round_def)

text \<open>Rounding moves a value by at most half the spacing at its exponent.\<close>

lemma round_even_error: "\<bar>of_int (round_even y) - y\<bar> \<le> 1 / 2"
proof -
  have "of_int \<lfloor>y\<rfloor> \<le> y" "y < of_int \<lfloor>y\<rfloor> + 1" by linarith+
  then show ?thesis
    by (auto simp: round_even_def Let_def abs_le_iff)
qed

lemma ieee_round_error:
  assumes "2 powi k \<le> \<bar>x\<bar>" "\<bar>x\<bar> < 2 powi (k + 1)" "emin \<le> k"
  shows "\<bar>ieee_round p emin x - x\<bar> \<le> 2 powi (k - p)"
proof -
  define q :: real where "q = 2 powi (k - p + 1)"
  have qpos: "0 < q" by (simp add: q_def)
  have "ieee_round p emin x - x = (of_int (round_even (x / q)) - x / q) * q"
    using ieee_round_at[OF assms] qpos by (simp add: q_def field_simps)
  then have "\<bar>ieee_round p emin x - x\<bar> = \<bar>of_int (round_even (x / q)) - x / q\<bar> * q"
    using qpos by (simp add: abs_mult)
  also have "\<dots> \<le> (1 / 2) * q"
    using round_even_error[of "x / q"] qpos by (intro mult_right_mono) simp_all
  also have "\<dots> = 2 powi (k - p)"
  proof -
    have "(2::real) powi (k - p + 1) = 2 powi (k - p) * 2 powi 1"
      by (subst power_int_add) simp_all
    then show ?thesis by (simp add: q_def)
  qed
  finally show ?thesis .
qed

section \<open>The statistics on the examples of the specification\<close>

lemma upt_small:
  "[0..<2] = [0, 1]" "[0..<3] = [0, 1, 2]" "[1..<2] = [1]" "[1..<3] = [1, 2]"
  "[Suc 0..<2] = [1]" "[Suc 0..<3] = [1, 2]"
  by code_simp+

lemmas hrv_eval =
  computeHRV_def history_state_def initial_state_def sum_nn_def nn_float_def
  sum_square_diff_def sum_square_diff_successive_def ECG_SAMPLE_SIZE_def Let_def
  to_float_numeral to_double_numeral to_float_0 to_double_0 to_float_1
  float_to_int_def c_trunc_def c_mod_def c_div_def upt_small

lemma hrv_constant:
  "computeHRV (history_state [800, 800, 800]) =
     Some ((history_state [800, 800, 800])\<lparr>sdnn := 0, rmssd := 0\<rparr>)"
  by (simp add: hrv_eval)

lemma sqrt_40000: "sqrt 40000 = 200"
  using real_sqrt_abs[of 200] by simp

lemma hrv_rising:
  "computeHRV (history_state [700, 900]) =
     Some ((history_state [700, 900])\<lparr>sdnn := to_float (sqrt 20000), rmssd := 200\<rparr>)"
  by (simp add: hrv_eval sqrt_40000)


lemma sdnn_rising_close: "\<bar>to_float (sqrt 20000) - 100 * sqrt 2\<bar> \<le> 1 / 131072"
proof -
  have eq: "sqrt 20000 = 100 * sqrt 2"
    using real_sqrt_mult[of 10000 2] real_sqrt_abs[of 100] by simp
  have "sqrt (128\<^sup>2) \<le> sqrt 20000" "sqrt 20000 < sqrt (256\<^sup>2)"
    by (simp_all only: real_sqrt_le_iff real_sqrt_less_iff) simp_all
  then have "2 powi 7 \<le> \<bar>sqrt 20000\<bar>" "\<bar>sqrt 20000\<bar> < 2 powi (7 + 1)"
    by simp_all
  from ieee_round_error[OF this, of "- 126" 24] show ?thesis
    by (simp add: to_float_def eq power_int_minus)
qed

text \<open>
  The difference of two successive intervals is taken in \<^verbatim>\<open>unsigned long\<close>: when the
  later interval is the shorter one it wraps, and its square is of the order of \<open>2\<^sup>6\<^sup>4\<close>.
\<close>

lemma successive_square_wrapped:
  assumes "2147483648 \<le> unat (xs ! 1 - xs ! 0)"
  shows "2 powi 62 \<le> sum_square_diff_successive xs 2"
proof -
  have "(2147483648 :: real) \<le> real (unat (xs ! 1 - xs ! 0))"
    using assms by (metis of_nat_le_iff of_nat_numeral)
  then have "2147483648\<^sup>2 \<le> (real (unat (xs ! 1 - xs ! 0)))\<^sup>2"
    by (intro power_mono) simp_all
  then have "2 powi 62 \<le> (real (unat (xs ! 1 - xs ! 0)))\<^sup>2"
    by simp
  then have "2 powi 62 \<le> to_float (to_double (to_double ((real (unat (xs ! 1 - xs ! 0)))\<^sup>2)))"
    by (intro to_float_ge_pow2 to_double_ge_pow2) simp_all
  then show ?thesis
    by (simp add: sum_square_diff_successive_def upt_small)
qed

lemma computeHRV_wrapped:
  assumes "nnIndex st = 2" "2147483648 \<le> unat (nnIntervals st ! 1 - nnIntervals st ! 0)"
  shows "computeHRV st = None"
proof -
  define r where "r = to_float (sqrt (to_float (sum_square_diff_successive (nnIntervals st) 2
      / to_float (of_int (nnIndex st - 1)))))"
  have "2 powi 62 \<le> to_float (sum_square_diff_successive (nnIntervals st) 2)"
    using successive_square_wrapped[OF assms(2)] by (intro to_float_ge_pow2) simp_all
  then have "sqrt ((2 powi 31)\<^sup>2) \<le> sqrt (to_float (sum_square_diff_successive (nnIntervals st) 2))"
    by (simp only: real_sqrt_le_iff) simp
  then have "2 powi 31 \<le> sqrt (to_float (sum_square_diff_successive (nnIntervals st) 2))"
    by simp
  then have "2 powi 31 \<le> r"
    unfolding r_def by (intro to_float_ge_pow2) (simp_all add: assms(1) to_float_1)
  then have "2147483648 \<le> r" by simp
  then have "2147483648 \<le> \<lfloor>r\<rfloor>" by (simp add: le_floor_iff)
  moreover have "0 \<le> r" using \<open>2147483648 \<le> r\<close> by simp
  ultimately have "float_to_int r = None"
    by (simp add: float_to_int_def c_trunc_def)
  then show ?thesis
    using assms(1) by (simp add: computeHRV_def Let_def ECG_SAMPLE_SIZE_def r_def)
qed

lemma hrv_falling: "computeHRV (history_state [900, 700]) = None"
  by (rule computeHRV_wrapped) (simp_all add: history_state_def)

lemma spec_rmssd_falling: "spec_rmssd [900, 700] = 200"
  by (simp add: spec_rmssd_def upt_small sqrt_40000)


lemmas loop_eval =
  loop_def storeSample_def detectPulse_def beat_accepted_def
  evaluateWindow_def window_elapsed_def transmit_def controlVibeMotors_def
  digitalWrite_def initial_state_def ECG_SAMPLE_SIZE_def ECG_AMPLITUDE_def
  UpperThreshold_def interval_def transmissionInterval_def arduino_map_def
  int32_def c_div_def c_mod_def fun_upd_def

lemma two_beats:
  "run [(900, 600), (1600, 600)] initial_state =
     Some (initial_state\<lparr>ecgWaveform := (replicate 128 0)[0 := 11, 1 := 11], ecgIndex := 2,
             lastBeatTime := 1600, nnIntervals := (replicate 128 0)[0 := 900, 1 := 700],
             nnIndex := 2, pulseCount := 2, pins := (\<lambda>_. False)\<rparr>)"
  by (simp add: loop_eval)

lemma window_after_two_beats:
  "loop 10000 0 (initial_state\<lparr>ecgWaveform := (replicate 128 0)[0 := 11, 1 := 11], ecgIndex := 2,
             lastBeatTime := 1600, nnIntervals := (replicate 128 0)[0 := 900, 1 := 700],
             nnIndex := 2, pulseCount := 2, pins := (\<lambda>_. False)\<rparr>) = None"
proof -
  let ?s = "initial_state\<lparr>ecgWaveform := (replicate 128 0)[0 := 11, 1 := 11], ecgIndex := 2,
             lastBeatTime := 1600, nnIntervals := (replicate 128 0)[0 := 900, 1 := 700],
             nnIndex := 2, pulseCount := 2, pins := (\<lambda>_. False)\<rparr>"
  have h: "computeHRV (s\<lparr>intervalStartTime := 10000, bpm := b\<rparr>) = None"
    if "nnIndex s = 2" "nnIntervals s = (replicate 128 0)[0 := 900, 1 := 700]" for s :: state and b
    by (rule computeHRV_wrapped) (simp_all add: that)
  obtain s1 where s1: "storeSample 0 ?s = Some s1" "nnIndex s1 = 2"
    "nnIntervals s1 = (replicate 128 0)[0 := 900, 1 := 700]" "intervalStartTime s1 = 0"
    "pulseCount s1 = 2" "lastBeatTime s1 = 1600"
    by (simp add: storeSample_def initial_state_def ECG_SAMPLE_SIZE_def)
  have s2: "detectPulse 10000 0 s1 = Some s1"
    by (rule detectPulse_rejected) simp
  have b: "estimateBPM s1 = Some 12"
    using estimateBPM_beats[of s1] s1 by simp
  have "evaluateWindow 10000 s1 = None"
    using s1 b h[of s1 12] by (simp add: evaluateWindow_def window_elapsed_def interval_def)
  then show ?thesis
    using s1(1) s2 by (simp add: loop_def)
qed

lemma run_append: "run (es1 @ es2) st = Option.bind (run es1 st) (run es2)"
proof (induction es1 arbitrary: st)
  case Nil
  then show ?case by simp
next
  case (Cons e es1)
  obtain t v where e: "e = (t, v)" by (cases e)
  show ?case
    by (cases "loop t v st") (simp_all add: e Cons.IH)
qed

text \<open>
  C2. The statistics of \<open>computeHRV\<close> follow the formulas of the specification on its two
  examples (\<open>hrv_constant\<close>, \<open>hrv_rising\<close>, \<open>sdnn_rising_close\<close>), but not
  in general: for the stored intervals 900, 700 the formula gives RMSSD = 200, while the
  code squares the wrapped difference \<open>700 - 900 = 4294967096\<close>, and the conversion of
  the root to \<^verbatim>\<open>int\<close> is undefined. The run with beats at 900 ms and 1600 ms and the
  first evaluation window at 10000 ms reaches this computation.
\<close>

theorem rmssd_undefined_on_shorter_interval:
  "spec_rmssd [900, 700] = 200 \<and>
   unat (700 - 900 :: 32 word) = 4294967096 \<and>
   computeHRV (history_state [900, 700]) = None \<and>
   run [(900, 600), (1600, 600), (10000, 0)] initial_state = None"
proof -
  have last: "run [(10000, 0)] s = loop 10000 0 s" for s
    by (cases "loop 10000 0 s") simp_all
  have "run ([(900, 600), (1600, 600)] @ [(10000, 0)]) initial_state =
      Option.bind (run [(900, 600), (1600, 600)] initial_state) (run [(10000, 0)])"
    by (rule run_append)
  also have "\<dots> = None"
    by (simp only: two_beats Option.bind.simps last window_after_two_beats)
  finally have "run [(900, 600), (1600, 600), (10000, 0)] initial_state = None"
    by (simp only: append_Cons append_Nil)
  moreover have "unat (700 - 900 :: 32 word) = 4294967096"
    by simp
  ultimately show ?thesis
    using spec_rmssd_falling hrv_falling by blast
qed

section \<open>The write index as element count\<close>





section \<open>Recording a sequence of beats\<close>




lemma length_beat_intervals [simp]: "length (beat_intervals prev es) = length es"
  by (induction es arbitrary: prev) auto




section \<open>Two stored intervals\<close>










lemma steady_beats_0 [simp]: "steady_beats a 0 = []"
  by (simp add: steady_beats_def)

lemma length_steady_beats [simp]: "length (steady_beats a n) = n"
  by (simp add: steady_beats_def)




lemma hrv_steady:
  "computeHRV (history_state [1000, 1000]) =
     Some ((history_state [1000, 1000])\<lparr>sdnn := 0, rmssd := 0\<rparr>)"
  by (simp add: hrv_eval)



section \<open>The arrays are never left\<close>

text \<open>
  In every run from the initial state the two arrays keep their 128 slots and both write
  indices stay inside them, so no pass stores or reads outside an array.
\<close>

lemma loop_indices:
  assumes "loop t v st = Some st'"
    "length (ecgWaveform st) = 128 \<and> length (nnIntervals st) = 128 \<and>
     0 \<le> ecgIndex st \<and> ecgIndex st < 128 \<and> 0 \<le> nnIndex st \<and> nnIndex st < 128"
  shows "length (ecgWaveform st') = 128 \<and> length (nnIntervals st') = 128 \<and>
     0 \<le> ecgIndex st' \<and> ecgIndex st' < 128 \<and> 0 \<le> nnIndex st' \<and> nnIndex st' < 128"
proof -
  from assms(1) obtain st1 where s1: "storeSample v st = Some st1"
    by (cases "storeSample v st") (auto simp: loop_def)
  with assms(1) obtain st2 where s2: "detectPulse t v st1 = Some st2"
    by (cases "detectPulse t v st1") (auto simp: loop_def)
  with assms(1) s1 obtain st3 where s3: "evaluateWindow t st2 = Some st3"
    by (cases "evaluateWindow t st2") (auto simp: loop_def)
  have out: "st' = transmit t (controlVibeMotors (stressLevel st3) st3)"
    using assms(1) s1 s2 s3 by (simp add: loop_def)
  have a1: "length (ecgWaveform st1) = 128 \<and> length (nnIntervals st1) = 128 \<and>
     0 \<le> ecgIndex st1 \<and> ecgIndex st1 < 128 \<and> 0 \<le> nnIndex st1 \<and> nnIndex st1 < 128"
    using s1 assms(2)
    by (auto simp: storeSample_def ECG_SAMPLE_SIZE_def next_index split: if_splits)
  have a2: "length (ecgWaveform st2) = 128 \<and> length (nnIntervals st2) = 128 \<and>
     0 \<le> ecgIndex st2 \<and> ecgIndex st2 < 128 \<and> 0 \<le> nnIndex st2 \<and> nnIndex st2 < 128"
  proof (cases "beat_accepted t v st1")
    case True
    then show ?thesis
      using s2 a1
      by (auto simp: detectPulse_def ECG_SAMPLE_SIZE_def next_index Let_def split: if_splits)
  next
    case False
    then show ?thesis using s2 a1 by (simp add: detectPulse_def)
  qed
  have a3: "length (ecgWaveform st3) = 128 \<and> length (nnIntervals st3) = 128 \<and>
     0 \<le> ecgIndex st3 \<and> ecgIndex st3 < 128 \<and> 0 \<le> nnIndex st3 \<and> nnIndex st3 < 128"
  proof (cases "10000 \<le> t - intervalStartTime st2")
    case True
    from evaluateWindow_elapsed[OF s3 True] a2 show ?thesis
      by (auto simp: flatlineGuard_def)
  next
    case False
    then have "t - intervalStartTime st2 < 10000" by (simp add: not_le)
    from evaluateWindow_not_elapsed[OF this] s3 a2 show ?thesis by simp
  qed
  from actuate_transmit_frame[of t "stressLevel st3" st3] obtain tx pn
    where "st' = st3\<lparr>lastTransmissionTime := tx, pins := pn\<rparr>"
    unfolding out by blast
  then show ?thesis using a3 by simp
qed

lemma run_indices:
  assumes "run es initial_state = Some st"
  shows "length (ecgWaveform st) = 128 \<and> length (nnIntervals st) = 128 \<and>
     0 \<le> ecgIndex st \<and> ecgIndex st < 128 \<and> 0 \<le> nnIndex st \<and> nnIndex st < 128"
proof -
  have "length (ecgWaveform st') = 128 \<and> length (nnIntervals st') = 128 \<and>
     0 \<le> ecgIndex st' \<and> ecgIndex st' < 128 \<and> 0 \<le> nnIndex st' \<and> nnIndex st' < 128"
    if "run es s = Some st'"
      "length (ecgWaveform s) = 128 \<and> length (nnIntervals s) = 128 \<and>
       0 \<le> ecgIndex s \<and> ecgIndex s < 128 \<and> 0 \<le> nnIndex s \<and> nnIndex s < 128"
    for s st'
    using that
  proof (induction es arbitrary: s)
    case Nil
    then show ?case by simp
  next
    case (Cons e es)
    obtain t v where e: "e = (t, v)" by (cases e)
    with Cons.prems(1) obtain s1 where l: "loop t v s = Some s1" and r: "run es s1 = Some st'"
      by (cases "loop t v s") auto
    from Cons.IH[OF r loop_indices[OF l Cons.prems(2)]] show ?case .
  qed
  from this[OF assms] show ?thesis
    by (simp add: initial_state_def)
qed

end
